theory Spec2Isabelle
  imports Main "HOL-Library.AList"
begin

section \<open>Values of the request and of the response\<close>

text \<open>
  Embedding of \<^verbatim>\<open>backend/src/controllers/authController.js\<close> and of the
  entry point that mounts the routers. \<^verbatim>\<open>Date.now()\<close> is an explicit argument
  (milliseconds since the epoch); a JavaScript value that may be \<^verbatim>\<open>undefined\<close> is an
  option; the request body is a JSON object whose fields are strings, kept as an association
  list in the order of its keys.
\<close>

type_synonym time = int

type_synonym object = "(string \<times> string) list"

text \<open>
  What a handler passes to \<^verbatim>\<open>next(err)\<close>: an \<^verbatim>\<open>ErrorHandler(message, statusCode)\<close>
  built by the controller, or an exception thrown by a collaborator (named by its class),
  which the \<^verbatim>\<open>catchAsync\<close> wrapper forwards to \<^verbatim>\<open>next\<close>.
\<close>

datatype app_error = ErrorHandler string nat | Thrown string

text \<open>A user document. \<open>password = None\<close>: the field was not selected by the query.\<close>

record user =
  uid :: string
  name :: string
  email :: string
  status :: string
  role :: string
  password :: "string option"
  passwordConfirm :: "string option"
  passwordChangedAt :: "time option"

type_synonym db = "user list"

record cookie_options =
  expires :: time
  secure :: bool
  sameSite :: string
  httpOnly :: bool
  path :: string

datatype json = JStr string | JUser user | JNull

record response =
  statusCode :: nat
  cookies :: "(string \<times> string \<times> cookie_options) list"
  body :: "(string \<times> json) list"

definition new_response :: response where
  "new_response = \<lparr>statusCode = 200, cookies = [], body = []\<rparr>"

record request =
  authorization :: "string option"
  cookies_jwt :: "string option"
  req_body :: object
  req_user :: "user option"
  req_method :: string
  req_path :: string

text \<open>
  The end of a handler: it answered, it called \<^verbatim>\<open>next(err)\<close>, or (the gate only) it
  attached the user to the request and called \<^verbatim>\<open>next()\<close>.
\<close>

datatype outcome = Responded response | NextError app_error | Next user

text \<open>\<^verbatim>\<open>process.env\<close>, read by the controller: strings, undefined when unset.\<close>

record env =
  JWT_SECRET :: "string option"
  JWT_EXPIRES_IN :: "string option"
  COOKIE_EXPIRES_IN :: "string option"
  NODE_ENV :: "string option"

text \<open>The payload \<^verbatim>\<open>jwt.verify\<close> returns: the identifier and the issue time (seconds).\<close>

record decoded =
  d_id :: string
  d_iat :: int

text \<open>
  The libraries the controller calls, as parameters: \<^verbatim>\<open>jwt.sign(payload, secret, {expiresIn})\<close>
  and \<^verbatim>\<open>jwt.verify(token, secret)\<close> of jsonwebtoken (both read the clock and both can throw),
  the lifetime in seconds jsonwebtoken gives an \<^verbatim>\<open>expiresIn\<close> value, the one-way hash
  and its comparison behind \<^verbatim>\<open>user.comparePasswords\<close>, and Mongoose's
  \<^verbatim>\<open>User.findByIdAndUpdate(id, data, {new: true, runValidators: true})\<close>, which returns
  the updated document (or null) or throws. With them the language's conversion of a
  string to a number, which the product \<^verbatim>\<open>process.env.COOKIE_EXPIRES_IN * 24 * ...\<close>
  applies: the whole number the string denotes, \<open>None\<close> (NaN) when it denotes no number. A
  day count with a fraction makes the expiry a rounded floating-point sum; the day counts
  of the model are whole numbers.
\<close>

record lib =
  jwt_sign :: "string \<Rightarrow> string option \<Rightarrow> string option \<Rightarrow> time \<Rightarrow> app_error + string"
  jwt_verify :: "string \<Rightarrow> string option \<Rightarrow> time \<Rightarrow> app_error + decoded"
  jwt_lifetime :: "string option \<Rightarrow> int"
  hashPassword :: "string \<Rightarrow> string"
  comparePasswords :: "string \<Rightarrow> string \<Rightarrow> bool"
  findByIdAndUpdate :: "db \<Rightarrow> string \<Rightarrow> object \<Rightarrow> app_error + (db \<times> user option)"
  toNumber :: "string \<Rightarrow> int option"

section \<open>JavaScript primitives used by the controller\<close>

text \<open>Truthiness of a string that may be undefined: \<^verbatim>\<open>undefined\<close> and \<^verbatim>\<open>""\<close> are falsy.\<close>

fun truthy :: "string option \<Rightarrow> bool" where
  "truthy None = False"
| "truthy (Some s) = (s \<noteq> [])"

definition startsWith :: "string \<Rightarrow> string \<Rightarrow> bool" where
  "startsWith s p = (take (length p) s = p)"

text \<open>\<^verbatim>\<open>s.split(sep)\<close> for a separator of one character; \<^verbatim>\<open>"".split(" ")\<close> is \<^verbatim>\<open>[""]\<close>.\<close>

fun split :: "string \<Rightarrow> char \<Rightarrow> string list" where
  "split [] sep = [] # []"
| "split (c # cs) sep =
     (if c = sep then [] # split cs sep
      else (case split cs sep of [] \<Rightarrow> [c] # [] | w # ws \<Rightarrow> (c # w) # ws))"

text \<open>\<^verbatim>\<open>xs[i]\<close>: undefined out of range.\<close>

definition at_index :: "'a list \<Rightarrow> nat \<Rightarrow> 'a option" where
  "at_index xs i = (if i < length xs then Some (xs ! i) else None)"

text \<open>\<^verbatim>\<open>obj[key]\<close> on the request body.\<close>

definition field :: "object \<Rightarrow> string \<Rightarrow> string option" where
  "field obj key = map_of obj key"

section \<open>The data layer\<close>

text \<open>
  Modelled from the spec: the queries of \<^verbatim>\<open>models/userModel\<close>, which is not among the
  sources. \<^verbatim>\<open>User.findById(id)\<close> and \<^verbatim>\<open>User.findOne({email})\<close> return the first
  document with that identifier or email, or null; the password field is normally hidden
  and is part of the result only under \<^verbatim>\<open>.select("+password")\<close>.
\<close>

definition hide_password :: "user \<Rightarrow> user" where
  "hide_password u = u\<lparr>password := None\<rparr>"

definition findById :: "db \<Rightarrow> string \<Rightarrow> user option" where
  "findById d i = map_option hide_password (find (\<lambda>u. uid u = i) d)"

definition findById_select_password :: "db \<Rightarrow> string \<Rightarrow> user option" where
  "findById_select_password d i = find (\<lambda>u. uid u = i) d"

definition findOne_select_password :: "db \<Rightarrow> string \<Rightarrow> user option" where
  "findOne_select_password d e = find (\<lambda>u. email u = e) d"

text \<open>
  Modelled from the spec: \<^verbatim>\<open>user.passwordChangedAfter(iat)\<close> of the user model compares
  the token's issue time (seconds) with the user's last password change (a date, in
  milliseconds); a user whose password never changed has no such date.
\<close>

definition passwordChangedAfter :: "user \<Rightarrow> int \<Rightarrow> bool" where
  "passwordChangedAfter u iat =
     (case passwordChangedAt u of None \<Rightarrow> False | Some t \<Rightarrow> iat < t div 1000)"

section \<open>The authentication gate\<close>

text \<open>
  The calls the gate makes to its collaborators, in the order it makes them, and the
  final attachment of the user to the request.
\<close>

datatype step =
  VerifyToken string
| FindUser string
| CheckPasswordChanged string int
| AttachUser string

text \<open>Lines 69 to 74 of the controller: the token of a request.\<close>

definition extract_token :: "request \<Rightarrow> string option" where
  "extract_token req =
     (case authorization req of
        Some a \<Rightarrow>
          (if a \<noteq> [] \<and> startsWith a ''Bearer'' then at_index (split a CHR '' '') 1
           else if truthy (cookies_jwt req) then cookies_jwt req else None)
      | None \<Rightarrow> (if truthy (cookies_jwt req) then cookies_jwt req else None))"

definition not_logged_in :: app_error where
  "not_logged_in =
     ErrorHandler ''You are not logged in! Please log in to access this route.'' 401"

definition user_gone :: app_error where
  "user_gone = ErrorHandler ''The user belonging to this token no longer exists.'' 401"

definition password_changed :: app_error where
  "password_changed =
     ErrorHandler ''User recently changed password. Please log in again.'' 401"

definition protect :: "lib \<Rightarrow> env \<Rightarrow> db \<Rightarrow> request \<Rightarrow> time \<Rightarrow> outcome \<times> step list" where
  "protect L E d req now =
     (case extract_token req of
        None \<Rightarrow> (NextError not_logged_in, [])
      | Some token \<Rightarrow>
          if token = [] then (NextError not_logged_in, [])
          else
            (case jwt_verify L token (JWT_SECRET E) now of
               Inl e \<Rightarrow> (NextError e, [VerifyToken token])
             | Inr dec \<Rightarrow>
                 (case findById d (d_id dec) of
                    None \<Rightarrow> (NextError user_gone, [VerifyToken token, FindUser (d_id dec)])
                  | Some currentUser \<Rightarrow>
                      if passwordChangedAfter currentUser (d_iat dec)
                      then (NextError password_changed,
                            [VerifyToken token, FindUser (d_id dec),
                             CheckPasswordChanged (uid currentUser) (d_iat dec)])
                      else (Next currentUser,
                            [VerifyToken token, FindUser (d_id dec),
                             CheckPasswordChanged (uid currentUser) (d_iat dec),
                             AttachUser (uid currentUser)]))))"

section \<open>Token issuance\<close>

definition createSendToken :: "lib \<Rightarrow> env \<Rightarrow> string \<Rightarrow> time \<Rightarrow> app_error + string" where
  "createSendToken L E i now = jwt_sign L i (JWT_SECRET E) (JWT_EXPIRES_IN E) now"

text \<open>\<^verbatim>\<open>res.cookie(name, value, options)\<close> and \<^verbatim>\<open>res.status(code).json(obj)\<close>.\<close>

definition res_cookie :: "response \<Rightarrow> string \<Rightarrow> string \<Rightarrow> cookie_options \<Rightarrow> response" where
  "res_cookie res n v opts = res\<lparr>cookies := cookies res @ [(n, v, opts)]\<rparr>"

definition res_json :: "response \<Rightarrow> nat \<Rightarrow> (string \<times> json) list \<Rightarrow> response" where
  "res_json res code obj = res\<lparr>statusCode := code, body := obj\<rparr>"

text \<open>
  \<^verbatim>\<open>new Date(value)\<close>: the time value of the date, \<open>None\<close> for an Invalid Date, which
  a NaN value and a value beyond 8640000000000000 ms on either side of the epoch give.
\<close>

definition new_Date :: "int option \<Rightarrow> time option" where
  "new_Date v =
     (case v of
        None \<Rightarrow> None
      | Some x \<Rightarrow> if \<bar>x\<bar> \<le> 8640000000000000 then Some x else None)"

text \<open>
  \<^verbatim>\<open>Date.now() + process.env.COOKIE_EXPIRES_IN * 24 * 60 * 60 * 1000\<close>: NaN when the
  variable is unset or denotes no number.
\<close>

definition cookie_expiry_value :: "lib \<Rightarrow> env \<Rightarrow> time \<Rightarrow> int option" where
  "cookie_expiry_value L E now =
     (case COOKIE_EXPIRES_IN E of
        None \<Rightarrow> None
      | Some s \<Rightarrow>
          (case toNumber L s of
             None \<Rightarrow> None
           | Some days \<Rightarrow> Some (now + days * 24 * 60 * 60 * 1000)))"

text \<open>
  The token is signed first; \<^verbatim>\<open>res.cookie\<close> throws a TypeError when the
  \<^verbatim>\<open>expires\<close> option is an Invalid Date, before anything is written to the response.
\<close>

definition sendToken :: "lib \<Rightarrow> env \<Rightarrow> time \<Rightarrow> user \<Rightarrow> nat \<Rightarrow> response \<Rightarrow> app_error + response" where
  "sendToken L E now usr code res =
     (case createSendToken L E (uid usr) now of
        Inl e \<Rightarrow> Inl e
      | Inr token \<Rightarrow>
          (case new_Date (cookie_expiry_value L E now) of
             None \<Rightarrow> Inl (Thrown ''TypeError'')
           | Some date \<Rightarrow>
               Inr (res_json
                      (res_cookie res ''jwt'' token
                         \<lparr>expires = date,
                          secure = (if NODE_ENV E = Some ''development'' then False else True),
                          sameSite = (if NODE_ENV E = Some ''development'' then ''Strict'' else ''None''),
                          httpOnly = True,
                          path = ''/''\<rparr>)
                      code
                      [(''status'', JStr ''success''), (''token'', JStr token), (''user'', JUser usr)])))"

section \<open>Field filtering\<close>

text \<open>
  \<^verbatim>\<open>Object.keys(obj).forEach\<close>: the loop over the keys, with the object under
  construction as accumulator. \<^verbatim>\<open>filteredObject[key] = value\<close> overwrites the key in
  place or appends it. Every key of the loop is a key of \<open>obj\<close>, so \<^verbatim>\<open>obj[key]\<close> is
  defined there.
\<close>

fun filterObject_loop :: "object \<Rightarrow> string list \<Rightarrow> string list \<Rightarrow> object \<Rightarrow> object" where
  "filterObject_loop obj allowedFields [] filteredObject = filteredObject"
| "filterObject_loop obj allowedFields (key # keys) filteredObject =
     filterObject_loop obj allowedFields keys
       (if key \<in> set allowedFields
        then (case field obj key of
                Some v \<Rightarrow> AList.update key v filteredObject
              | None \<Rightarrow> filteredObject)
        else filteredObject)"

definition filterObject :: "object \<Rightarrow> string list \<Rightarrow> object" where
  "filterObject obj allowedFields = filterObject_loop obj allowedFields (map fst obj) []"

section \<open>Log-in\<close>

definition enter_email_and_password :: app_error where
  "enter_email_and_password = ErrorHandler ''Please enter email and password'' 401"

definition invalid_email_or_password :: app_error where
  "invalid_email_or_password = ErrorHandler ''Invalid email or password'' 401"

text \<open>
  A stored user without a password hash makes the comparison of the hashing library throw;
  \<^verbatim>\<open>catchAsync\<close> forwards the exception.
\<close>

definition logIn :: "lib \<Rightarrow> env \<Rightarrow> db \<Rightarrow> request \<Rightarrow> time \<Rightarrow> outcome" where
  "logIn L E d req now =
     (case (field (req_body req) ''email'', field (req_body req) ''password'') of
        (Some em, Some pw) \<Rightarrow>
          if em = [] \<or> pw = [] then NextError enter_email_and_password
          else
            (case findOne_select_password d em of
               None \<Rightarrow> NextError invalid_email_or_password
             | Some usr \<Rightarrow>
                 (case password usr of
                    None \<Rightarrow> NextError (Thrown ''Error'')
                  | Some h \<Rightarrow>
                      if \<not> comparePasswords L pw h then NextError invalid_email_or_password
                      else
                        (case sendToken L E now usr 200 new_response of
                           Inl e \<Rightarrow> NextError e
                         | Inr res \<Rightarrow> Responded res)))
      | _ \<Rightarrow> NextError enter_email_and_password)"

section \<open>Password update\<close>

text \<open>
  Modelled from the spec: \<^verbatim>\<open>user.save()\<close> of the user model, which is not among the
  sources. The data layer validates the document (the password is present and the
  confirmation matches it), hashes the password, sets the date of the password change and
  writes the document. No password is kept in plain text, so the confirmation is dropped;
  the document in memory carries the hash afterwards.
\<close>

definition save :: "lib \<Rightarrow> db \<Rightarrow> user \<Rightarrow> time \<Rightarrow> app_error + (db \<times> user)" where
  "save L d usr now =
     (case password usr of
        None \<Rightarrow> Inl (Thrown ''ValidationError'')
      | Some p \<Rightarrow>
          if passwordConfirm usr \<noteq> Some p then Inl (Thrown ''ValidationError'')
          else
            (let usr' = usr\<lparr>password := Some (hashPassword L p), passwordConfirm := None,
                            passwordChangedAt := Some now\<rparr>
             in Inr (map (\<lambda>x. if uid x = uid usr then usr' else x) d, usr')))"

definition current_password_incorrect :: app_error where
  "current_password_incorrect = ErrorHandler ''Current password is incorrect'' 400"

text \<open>
  The handler runs behind the gate, which sets \<^verbatim>\<open>req.user\<close>; reading a property of
  \<^verbatim>\<open>undefined\<close> or of \<^verbatim>\<open>null\<close> throws a TypeError.
\<close>

definition updateMyPassword :: "lib \<Rightarrow> env \<Rightarrow> db \<Rightarrow> request \<Rightarrow> time \<Rightarrow> outcome \<times> db" where
  "updateMyPassword L E d req now =
     (case req_user req of
        None \<Rightarrow> (NextError (Thrown ''TypeError''), d)
      | Some ru \<Rightarrow>
          (case field (req_body req) ''password'' of
             None \<Rightarrow> (NextError current_password_incorrect, d)
           | Some pw \<Rightarrow>
               if pw = [] then (NextError current_password_incorrect, d)
               else
                 (case findById_select_password d (uid ru) of
                    None \<Rightarrow> (NextError (Thrown ''TypeError''), d)
                  | Some usr \<Rightarrow>
                      (case password usr of
                         None \<Rightarrow> (NextError (Thrown ''Error''), d)
                       | Some h \<Rightarrow>
                           if \<not> comparePasswords L pw h
                           then (NextError current_password_incorrect, d)
                           else
                             (case save L d
                                     (usr\<lparr>password := field (req_body req) ''newPassword'',
                                          passwordConfirm := field (req_body req) ''passwordConfirm''\<rparr>)
                                     now of
                                Inl e \<Rightarrow> (NextError e, d)
                              | Inr (d', usr') \<Rightarrow>
                                  (case sendToken L E now usr' 200 new_response of
                                     Inl e \<Rightarrow> (NextError e, d')
                                   | Inr res \<Rightarrow> (Responded res, d')))))))"

section \<open>Profile update\<close>

definition updateMe :: "lib \<Rightarrow> db \<Rightarrow> request \<Rightarrow> outcome \<times> db" where
  "updateMe L d req =
     (let filteredData = filterObject (req_body req) [''name'', ''email'', ''status'']
      in case req_user req of
           None \<Rightarrow> (NextError (Thrown ''TypeError''), d)
         | Some ru \<Rightarrow>
             (case findByIdAndUpdate L d (uid ru) filteredData of
                Inl e \<Rightarrow> (NextError e, d)
              | Inr (d', updatedUser) \<Rightarrow>
                  (Responded
                     (res_json new_response 200
                        [(''status'', JStr ''success''),
                         (''user'', (case updatedUser of None \<Rightarrow> JNull | Some u \<Rightarrow> JUser u))]),
                   d')))"

section \<open>Log-out\<close>

text \<open>
  The handler touches the response only. Nothing in its \<^verbatim>\<open>try\<close> block throws, so the
  \<^verbatim>\<open>catch\<close> branch (status 500) has no path in the model. The stored users are an argument
  returned as they came: the handler never reaches the data layer.
\<close>

definition logOut :: "env \<Rightarrow> db \<Rightarrow> request \<Rightarrow> time \<Rightarrow> outcome \<times> db" where
  "logOut E d req now =
     (Responded
        (res_json
           (res_cookie new_response ''jwt'' ''loggedout''
              \<lparr>expires = now + 10 * 1000,
               secure = (if NODE_ENV E = Some ''development'' then False else True),
               sameSite = (if NODE_ENV E = Some ''development'' then ''Strict'' else ''None''),
               httpOnly = True,
               path = ''/''\<rparr>)
           200
           [(''status'', JStr ''success'')]),
      d)"

section \<open>The application: middleware, routers and the fallback\<close>












section \<open>Contracts of the collaborators and the wording of the specification\<close>

text \<open>
  The contract of jsonwebtoken the round trip relies on: a token signed at \<open>t0\<close> is a
  non-empty string without spaces (three base64url segments joined by dots), and
  \<^verbatim>\<open>jwt.verify\<close> with the same secret, called before the lifetime has elapsed, returns
  the signed identifier with the issue time in seconds.
\<close>

definition jwt_roundtrip :: "lib \<Rightarrow> bool" where
  "jwt_roundtrip L \<longleftrightarrow>
     (\<forall>i secret ttl t0 t1 tok.
        jwt_sign L i secret ttl t0 = Inr tok \<and> t0 \<le> t1 \<and>
        t1 div 1000 < t0 div 1000 + jwt_lifetime L ttl \<longrightarrow>
          jwt_verify L tok secret t1 = Inr \<lparr>d_id = i, d_iat = t0 div 1000\<rparr> \<and>
          tok \<noteq> [] \<and> CHR '' '' \<notin> set tok)"

text \<open>
  A request presents a token the way a client holds it: in the header
  \<^verbatim>\<open>Authorization: Bearer <token>\<close>, or in the jwt cookie of a request without a
  Bearer header.
\<close>

definition presents :: "request \<Rightarrow> string \<Rightarrow> bool" where
  "presents req tok \<longleftrightarrow>
     authorization req = Some (''Bearer '' @ tok) \<or>
     (cookies_jwt req = Some tok \<and>
      (case authorization req of None \<Rightarrow> True | Some a \<Rightarrow> \<not> startsWith a ''Bearer''))"

text \<open>The cookie a handler's result carries under the name jwt, if any.\<close>

definition jwt_cookie :: "response \<Rightarrow> (string \<times> cookie_options) option" where
  "jwt_cookie res = map_of (cookies res) ''jwt''"


section \<open>A small instance\<close>

text \<open>
  An environment, a token library, a hash and one stored user, on which the handlers can be
  run. The token library signs in one second only, which keeps its issue time a constant.
\<close>

definition demo_env :: env where
  "demo_env = \<lparr>JWT_SECRET = Some ''s3cret'', JWT_EXPIRES_IN = Some ''90d'',
                COOKIE_EXPIRES_IN = Some ''90'', NODE_ENV = Some ''production''\<rparr>"

text \<open>The value of a string of decimal digits; the empty string denotes 0.\<close>

definition digit :: "char \<Rightarrow> int option" where
  "digit c =
     map_of [(CHR ''0'', 0), (CHR ''1'', 1), (CHR ''2'', 2), (CHR ''3'', 3), (CHR ''4'', 4),
             (CHR ''5'', 5), (CHR ''6'', 6), (CHR ''7'', 7), (CHR ''8'', 8), (CHR ''9'', 9)] c"

fun decimal :: "string \<Rightarrow> int \<Rightarrow> int option" where
  "decimal [] acc = Some acc"
| "decimal (c # cs) acc =
     (case digit c of None \<Rightarrow> None | Some v \<Rightarrow> decimal cs (10 * acc + v))"

text \<open>A data layer that writes every field it is handed, the role among them.\<close>

definition write_fields :: "object \<Rightarrow> user \<Rightarrow> user" where
  "write_fields data u =
     u\<lparr>name := (case map_of data ''name'' of Some v \<Rightarrow> v | None \<Rightarrow> name u),
       email := (case map_of data ''email'' of Some v \<Rightarrow> v | None \<Rightarrow> email u),
       status := (case map_of data ''status'' of Some v \<Rightarrow> v | None \<Rightarrow> status u),
       role := (case map_of data ''role'' of Some v \<Rightarrow> v | None \<Rightarrow> role u)\<rparr>"

definition demo_lib :: lib where
  "demo_lib =
     \<lparr>jwt_sign = (\<lambda>i secret ttl t.
         if secret = Some ''s3cret'' \<and> t div 1000 = 5 \<and> CHR '' '' \<notin> set i
         then Inr (''tok.'' @ i) else Inl (Thrown ''Error'')),
      jwt_verify = (\<lambda>tok secret t.
         if secret = Some ''s3cret'' \<and> take 4 tok = ''tok.'' \<and> t div 1000 < 5 + 7776000
         then Inr \<lparr>d_id = drop 4 tok, d_iat = 5\<rparr>
         else Inl (Thrown ''JsonWebTokenError'')),
      jwt_lifetime = (\<lambda>ttl. 7776000),
      hashPassword = (\<lambda>p. ''#'' @ p),
      comparePasswords = (\<lambda>p h. h = ''#'' @ p),
      findByIdAndUpdate = (\<lambda>d i data.
         Inr (map (\<lambda>u. if uid u = i then write_fields data u else u) d,
              map_option (write_fields data) (find (\<lambda>u. uid u = i) d))),
      toNumber = (\<lambda>s. decimal s 0)\<rparr>"

definition alice :: user where
  "alice = \<lparr>uid = ''u1'', name = ''Alice'', email = ''alice@example.com'',
            status = ''active'', role = ''user'',
            password = Some ''#pw1'', passwordConfirm = None, passwordChangedAt = None\<rparr>"

definition demo_db :: db where
  "demo_db = [alice]"

definition demo_request :: request where
  "demo_request = \<lparr>authorization = None, cookies_jwt = None, req_body = [],
                    req_user = None, req_method = ''GET'', req_path = ''/api/unknown''\<rparr>"






section \<open>Token extraction\<close>

lemma split_word:
  "sep \<notin> set w \<Longrightarrow> split (w @ sep # rest) sep = w # split rest sep"
  by (induction w) auto

lemma split_no_sep: "sep \<notin> set w \<Longrightarrow> split w sep = [w]"
  by (induction w) auto

lemma extract_token_bearer:
  assumes "authorization req = Some (''Bearer '' @ tok)" and "CHR '' '' \<notin> set tok"
  shows "extract_token req = Some tok"
proof -
  have "split (''Bearer'' @ CHR '' '' # tok) CHR '' '' = ''Bearer'' # split tok CHR '' ''"
    by (rule split_word) simp
  moreover have "split tok CHR '' '' = [tok]"
    using assms(2) by (rule split_no_sep)
  ultimately have "split (''Bearer '' @ tok) CHR '' '' = [''Bearer'', tok]"
    by simp
  then show ?thesis
    using assms(1) by (simp add: extract_token_def startsWith_def at_index_def)
qed

lemma extract_token_cookie:
  assumes "cookies_jwt req = Some tok" and "tok \<noteq> []"
    and "case authorization req of None \<Rightarrow> True | Some a \<Rightarrow> \<not> startsWith a ''Bearer''"
  shows "extract_token req = Some tok"
  using assms by (simp add: extract_token_def split: option.splits)

lemma extract_token_presents:
  "presents req tok \<Longrightarrow> tok \<noteq> [] \<Longrightarrow> CHR '' '' \<notin> set tok \<Longrightarrow> extract_token req = Some tok"
  unfolding presents_def using extract_token_bearer extract_token_cookie by blast

lemma protect_accepts:
  assumes "extract_token req = Some tok" and "tok \<noteq> []"
    and "jwt_verify L tok (JWT_SECRET E) now = Inr dec"
    and "findById d (d_id dec) = Some u"
    and "\<not> passwordChangedAfter u (d_iat dec)"
  shows "protect L E d req now =
           (Next u, [VerifyToken tok, FindUser (d_id dec),
                     CheckPasswordChanged (uid u) (d_iat dec), AttachUser (uid u)])"
  using assms by (simp add: protect_def)

section \<open>The gate reads the header before the cookie\<close>

text \<open>
  Claim C10. When the Authorization header is present and starts with \<^verbatim>\<open>Bearer\<close>, the
  token is the second space-separated word of the header and the jwt cookie plays no part:
  the gate gives the same result whatever the cookie is. A header that is exactly
  \<^verbatim>\<open>Bearer\<close> has no second word, and the gate rejects with 401 "not logged in", even
  when the request carries a jwt cookie.
\<close>

theorem protect_header_excludes_cookie:
  "(authorization req = Some a \<and> a \<noteq> [] \<and> startsWith a ''Bearer'' \<longrightarrow>
      extract_token (req\<lparr>cookies_jwt := c\<rparr>) = at_index (split a CHR '' '') 1 \<and>
      protect L E d (req\<lparr>cookies_jwt := c\<rparr>) now = protect L E d (req\<lparr>cookies_jwt := None\<rparr>) now) \<and>
   (authorization req = Some ''Bearer'' \<longrightarrow>
      protect L E d (req\<lparr>cookies_jwt := c\<rparr>) now =
        (NextError (ErrorHandler ''You are not logged in! Please log in to access this route.'' 401), []))"
  by (simp add: protect_def extract_token_def startsWith_def at_index_def not_logged_in_def)

text \<open>
  The cookie \<^verbatim>\<open>tok.u1\<close> alone is accepted; with the header \<^verbatim>\<open>Bearer\<close> beside it
  the request is rejected; with another token in the header the cookie changes nothing.
\<close>

theorem protect_header_excludes_cookie_witness:
  "startsWith ''Bearer'' ''Bearer'' \<and>
   protect demo_lib demo_env demo_db (demo_request\<lparr>cookies_jwt := Some ''tok.u1''\<rparr>) 9000 =
     (Next (hide_password alice),
      [VerifyToken ''tok.u1'', FindUser ''u1'', CheckPasswordChanged ''u1'' 5, AttachUser ''u1'']) \<and>
   protect demo_lib demo_env demo_db
     (demo_request\<lparr>authorization := Some ''Bearer'', cookies_jwt := Some ''tok.u1''\<rparr>) 9000 =
     (NextError (ErrorHandler ''You are not logged in! Please log in to access this route.'' 401), []) \<and>
   protect demo_lib demo_env demo_db
     (demo_request\<lparr>authorization := Some ''Bearer tok.u2'', cookies_jwt := Some ''tok.u1''\<rparr>) 9000 =
   protect demo_lib demo_env demo_db
     (demo_request\<lparr>authorization := Some ''Bearer tok.u2'', cookies_jwt := None\<rparr>) 9000"
  using protect_header_excludes_cookie
          [of "demo_request\<lparr>authorization := Some ''Bearer''\<rparr>" "''Bearer''" "Some ''tok.u1''"
              demo_lib demo_env demo_db 9000]
        protect_header_excludes_cookie
          [of "demo_request\<lparr>authorization := Some ''Bearer tok.u2''\<rparr>" "''Bearer tok.u2''"
              "Some ''tok.u1''" demo_lib demo_env demo_db 9000]
  by (simp add: protect_def extract_token_def startsWith_def at_index_def demo_request_def
        demo_lib_def demo_env_def demo_db_def alice_def findById_def hide_password_def
        passwordChangedAfter_def)

section \<open>The order of the gate\<close>

text \<open>
  Claim C1. The gate takes the token from the header \<^verbatim>\<open>Authorization: Bearer <token>\<close>,
  else from the jwt cookie; with neither it rejects with 401 "not logged in" and calls no
  collaborator. Otherwise it verifies the token; only after a successful verification it
  looks the user up by the decoded identifier and rejects with 401 if there is none; only
  then it asks whether the password changed after the issue time and rejects with 401 if
  so; only then it attaches the user and passes control on. Each rejection ends the
  sequence of calls where it occurs.
\<close>

theorem protect_order:
  "(authorization req = Some (''Bearer '' @ tok) \<and> CHR '' '' \<notin> set tok \<longrightarrow>
      extract_token req = Some tok) \<and>
   (authorization req = None \<longrightarrow>
      extract_token req = (if truthy (cookies_jwt req) then cookies_jwt req else None)) \<and>
   (authorization req = None \<and> cookies_jwt req = None \<longrightarrow>
      protect L E d req now =
        (NextError (ErrorHandler ''You are not logged in! Please log in to access this route.'' 401),
         [])) \<and>
   (\<not> truthy (extract_token req) \<longrightarrow>
      protect L E d req now =
        (NextError (ErrorHandler ''You are not logged in! Please log in to access this route.'' 401),
         [])) \<and>
   (extract_token req = Some t \<and> t \<noteq> [] \<and> jwt_verify L t (JWT_SECRET E) now = Inl e \<longrightarrow>
      protect L E d req now = (NextError e, [VerifyToken t])) \<and>
   (extract_token req = Some t \<and> t \<noteq> [] \<and> jwt_verify L t (JWT_SECRET E) now = Inr dec \<and>
    findById d (d_id dec) = None \<longrightarrow>
      protect L E d req now =
        (NextError (ErrorHandler ''The user belonging to this token no longer exists.'' 401),
         [VerifyToken t, FindUser (d_id dec)])) \<and>
   (extract_token req = Some t \<and> t \<noteq> [] \<and> jwt_verify L t (JWT_SECRET E) now = Inr dec \<and>
    findById d (d_id dec) = Some u \<and> passwordChangedAfter u (d_iat dec) \<longrightarrow>
      protect L E d req now =
        (NextError (ErrorHandler ''User recently changed password. Please log in again.'' 401),
         [VerifyToken t, FindUser (d_id dec), CheckPasswordChanged (uid u) (d_iat dec)])) \<and>
   (extract_token req = Some t \<and> t \<noteq> [] \<and> jwt_verify L t (JWT_SECRET E) now = Inr dec \<and>
    findById d (d_id dec) = Some u \<and> \<not> passwordChangedAfter u (d_iat dec) \<longrightarrow>
      protect L E d req now =
        (Next u,
         [VerifyToken t, FindUser (d_id dec), CheckPasswordChanged (uid u) (d_iat dec),
          AttachUser (uid u)]))"
proof -
  have missing: "\<not> truthy (extract_token req) \<Longrightarrow>
      protect L E d req now = (NextError not_logged_in, [])"
    by (cases "extract_token req") (simp_all add: protect_def)
  have cookie: "authorization req = None \<Longrightarrow>
      extract_token req = (if truthy (cookies_jwt req) then cookies_jwt req else None)"
    by (simp add: extract_token_def)
  show ?thesis
    using missing cookie extract_token_bearer [of req tok]
    by (auto simp: protect_def not_logged_in_def user_gone_def password_changed_def)
qed

text \<open>
  The five ends of the gate on requests against one stored user: no token, a token that
  fails verification, a token of a user that is gone, a token older than the password
  change, and an accepted token.
\<close>

theorem protect_order_witness:
  "protect demo_lib demo_env demo_db demo_request 9000 =
     (NextError (ErrorHandler ''You are not logged in! Please log in to access this route.'' 401),
      []) \<and>
   protect demo_lib demo_env demo_db (demo_request\<lparr>cookies_jwt := Some ''loggedout''\<rparr>) 9000 =
     (NextError (Thrown ''JsonWebTokenError''), [VerifyToken ''loggedout'']) \<and>
   protect demo_lib demo_env demo_db
     (demo_request\<lparr>authorization := Some ''Bearer tok.u2''\<rparr>) 9000 =
     (NextError (ErrorHandler ''The user belonging to this token no longer exists.'' 401),
      [VerifyToken ''tok.u2'', FindUser ''u2'']) \<and>
   protect demo_lib demo_env [alice\<lparr>passwordChangedAt := Some 8000\<rparr>]
     (demo_request\<lparr>authorization := Some ''Bearer tok.u1''\<rparr>) 9000 =
     (NextError (ErrorHandler ''User recently changed password. Please log in again.'' 401),
      [VerifyToken ''tok.u1'', FindUser ''u1'', CheckPasswordChanged ''u1'' 5]) \<and>
   protect demo_lib demo_env demo_db
     (demo_request\<lparr>authorization := Some ''Bearer tok.u1''\<rparr>) 9000 =
     (Next (hide_password alice),
      [VerifyToken ''tok.u1'', FindUser ''u1'', CheckPasswordChanged ''u1'' 5,
       AttachUser ''u1''])"
proof -
  let ?hdr = "\<lambda>a. demo_request\<lparr>authorization := Some a\<rparr>"
  have tok1: "extract_token (?hdr ''Bearer tok.u1'') = Some ''tok.u1''"
    using protect_order [of "?hdr ''Bearer tok.u1''" "''tok.u1''"] by simp
  have tok2: "extract_token (?hdr ''Bearer tok.u2'') = Some ''tok.u2''"
    using protect_order [of "?hdr ''Bearer tok.u2''" "''tok.u2''"] by simp
  have ck: "extract_token (demo_request\<lparr>cookies_jwt := Some ''loggedout''\<rparr>) = Some ''loggedout''"
    using protect_order [of "demo_request\<lparr>cookies_jwt := Some ''loggedout''\<rparr>"]
    by (simp add: demo_request_def)
  have c1: "protect demo_lib demo_env demo_db demo_request 9000 =
     (NextError (ErrorHandler ''You are not logged in! Please log in to access this route.'' 401),
      [])"
    using protect_order [of demo_request _ demo_lib demo_env demo_db 9000]
    by (simp add: demo_request_def)
  have c2: "protect demo_lib demo_env demo_db (demo_request\<lparr>cookies_jwt := Some ''loggedout''\<rparr>) 9000 =
     (NextError (Thrown ''JsonWebTokenError''), [VerifyToken ''loggedout''])"
    using ck protect_order [of "demo_request\<lparr>cookies_jwt := Some ''loggedout''\<rparr>" _ demo_lib
                               demo_env demo_db 9000 "''loggedout''" "Thrown ''JsonWebTokenError''"]
    by (simp add: demo_lib_def demo_env_def)
  have c3: "protect demo_lib demo_env demo_db (?hdr ''Bearer tok.u2'') 9000 =
     (NextError (ErrorHandler ''The user belonging to this token no longer exists.'' 401),
      [VerifyToken ''tok.u2'', FindUser ''u2''])"
    using tok2 protect_order [of "?hdr ''Bearer tok.u2''" _ demo_lib demo_env demo_db 9000
                                 "''tok.u2''" _ "\<lparr>d_id = ''u2'', d_iat = 5\<rparr>"]
    by (simp add: demo_lib_def demo_env_def demo_db_def alice_def findById_def)
  have c4: "protect demo_lib demo_env [alice\<lparr>passwordChangedAt := Some 8000\<rparr>]
       (?hdr ''Bearer tok.u1'') 9000 =
     (NextError (ErrorHandler ''User recently changed password. Please log in again.'' 401),
      [VerifyToken ''tok.u1'', FindUser ''u1'', CheckPasswordChanged ''u1'' 5])"
    using tok1 protect_order [of "?hdr ''Bearer tok.u1''" _ demo_lib demo_env
                                 "[alice\<lparr>passwordChangedAt := Some 8000\<rparr>]" 9000
                                 "''tok.u1''" _ "\<lparr>d_id = ''u1'', d_iat = 5\<rparr>"
                                 "hide_password (alice\<lparr>passwordChangedAt := Some 8000\<rparr>)"]
    by (simp add: demo_lib_def demo_env_def alice_def findById_def hide_password_def
          passwordChangedAfter_def)
  have c5: "protect demo_lib demo_env demo_db (?hdr ''Bearer tok.u1'') 9000 =
     (Next (hide_password alice),
      [VerifyToken ''tok.u1'', FindUser ''u1'', CheckPasswordChanged ''u1'' 5,
       AttachUser ''u1''])"
    using tok1 protect_order [of "?hdr ''Bearer tok.u1''" _ demo_lib demo_env demo_db 9000
                                 "''tok.u1''" _ "\<lparr>d_id = ''u1'', d_iat = 5\<rparr>"
                                 "hide_password alice"]
    by (simp add: demo_lib_def demo_env_def demo_db_def alice_def findById_def hide_password_def
          passwordChangedAfter_def)
  show ?thesis
    using c1 c2 c3 c4 c5 by simp
qed

section \<open>The round trip of a token\<close>

text \<open>
  Claim C2. For every identifier, a token that the issuance function returns for it,
  presented to the gate (in the header or in the cookie) before its lifetime has elapsed,
  verifies with the same secret and decodes to that identifier: the gate goes on to look
  up exactly this identifier. If the user exists and the password did not change after the
  issue time, the gate accepts the request for that user. The signature scheme is the
  library's; the theorem holds for every library that keeps the round trip.
\<close>

theorem token_round_trip:
  assumes "jwt_roundtrip L"
    and "createSendToken L E i t0 = Inr tok"
    and "t0 \<le> t1"
    and "t1 div 1000 < t0 div 1000 + jwt_lifetime L (JWT_EXPIRES_IN E)"
    and "presents req tok"
  shows "jwt_verify L tok (JWT_SECRET E) t1 = Inr \<lparr>d_id = i, d_iat = t0 div 1000\<rparr> \<and>
         (\<exists>out rest. protect L E d req t1 = (out, VerifyToken tok # FindUser i # rest)) \<and>
         (\<forall>u. findById d i = Some u \<and> \<not> passwordChangedAfter u (t0 div 1000) \<longrightarrow>
            protect L E d req t1 =
              (Next u, [VerifyToken tok, FindUser i, CheckPasswordChanged (uid u) (t0 div 1000),
                        AttachUser (uid u)]))"
proof -
  have signed: "jwt_sign L i (JWT_SECRET E) (JWT_EXPIRES_IN E) t0 = Inr tok"
    using assms(2) by (simp add: createSendToken_def)
  have lib: "jwt_verify L tok (JWT_SECRET E) t1 = Inr \<lparr>d_id = i, d_iat = t0 div 1000\<rparr> \<and>
             tok \<noteq> [] \<and> CHR '' '' \<notin> set tok"
    using assms(1) signed assms(3,4) unfolding jwt_roundtrip_def by blast
  then have tok: "extract_token req = Some tok"
    using assms(5) by (simp add: extract_token_presents)
  have steps: "\<exists>out rest. protect L E d req t1 = (out, VerifyToken tok # FindUser i # rest)"
    using tok lib by (simp add: protect_def split: option.splits)
  have accepted: "protect L E d req t1 =
      (Next u, [VerifyToken tok, FindUser i, CheckPasswordChanged (uid u) (t0 div 1000),
                AttachUser (uid u)])"
    if "findById d i = Some u" and "\<not> passwordChangedAfter u (t0 div 1000)" for u
    using protect_accepts [of req tok L E t1 "\<lparr>d_id = i, d_iat = t0 div 1000\<rparr>" d u] tok lib that
    by simp
  show ?thesis
    using lib steps accepted by blast
qed

lemma demo_lib_roundtrip: "jwt_roundtrip demo_lib"
  by (auto simp: jwt_roundtrip_def demo_lib_def)

text \<open>
  A token issued for \<^verbatim>\<open>u1\<close> at 5000 ms and presented in the header at 9000 ms.
\<close>

theorem token_round_trip_witness:
  "jwt_roundtrip demo_lib \<and>
   createSendToken demo_lib demo_env ''u1'' 5000 = Inr ''tok.u1'' \<and>
   (5000 :: int) \<le> 9000 \<and>
   (9000 :: int) div 1000 < 5000 div 1000 + jwt_lifetime demo_lib (JWT_EXPIRES_IN demo_env) \<and>
   presents (demo_request\<lparr>authorization := Some ''Bearer tok.u1''\<rparr>) ''tok.u1'' \<and>
   findById demo_db ''u1'' = Some (hide_password alice) \<and>
   \<not> passwordChangedAfter (hide_password alice) (5000 div 1000) \<and>
   jwt_verify demo_lib ''tok.u1'' (JWT_SECRET demo_env) 9000 = Inr \<lparr>d_id = ''u1'', d_iat = 5\<rparr> \<and>
   protect demo_lib demo_env demo_db (demo_request\<lparr>authorization := Some ''Bearer tok.u1''\<rparr>) 9000 =
     (Next (hide_password alice),
      [VerifyToken ''tok.u1'', FindUser ''u1'', CheckPasswordChanged ''u1'' 5,
       AttachUser ''u1''])"
proof -
  have h1: "createSendToken demo_lib demo_env ''u1'' 5000 = Inr ''tok.u1''"
    by (simp add: createSendToken_def demo_lib_def demo_env_def)
  have h2: "(5000 :: int) \<le> 9000"
    by simp
  have h3: "(9000 :: int) div 1000 < 5000 div 1000 + jwt_lifetime demo_lib (JWT_EXPIRES_IN demo_env)"
    by (simp add: demo_lib_def)
  have h4: "presents (demo_request\<lparr>authorization := Some ''Bearer tok.u1''\<rparr>) ''tok.u1''"
    by (simp add: presents_def)
  have h5: "findById demo_db ''u1'' = Some (hide_password alice)"
    by (simp add: findById_def demo_db_def alice_def)
  have h6: "\<not> passwordChangedAfter (hide_password alice) (5000 div 1000)"
    by (simp add: passwordChangedAfter_def hide_password_def alice_def)
  have h7: "uid (hide_password alice) = ''u1''"
    by (simp add: hide_password_def alice_def)
  show ?thesis
    using token_round_trip [OF demo_lib_roundtrip h1 h2 h3 h4, of demo_db] h1 h3 h4 h5 h6 h7
      demo_lib_roundtrip
    by simp
qed

section \<open>The cookie of an issued token\<close>


lemma demo_ninety: "toNumber demo_lib ''90'' = Some 90"
  by (simp add: demo_lib_def digit_def)

lemma demo_expiry: "new_Date (cookie_expiry_value demo_lib demo_env 5000) = Some 7776005000"
  using demo_ninety by (simp add: new_Date_def cookie_expiry_value_def demo_env_def)

lemma demo_sendToken:
  "CHR '' '' \<notin> set (uid usr) \<Longrightarrow>
   sendToken demo_lib demo_env 5000 usr 200 new_response =
     Inr \<lparr>statusCode = 200,
          cookies =
            [(''jwt'', ''tok.'' @ uid usr,
              \<lparr>expires = 7776005000, secure = True, sameSite = ''None'', httpOnly = True,
               path = ''/''\<rparr>)],
          body = [(''status'', JStr ''success''), (''token'', JStr (''tok.'' @ uid usr)),
                  (''user'', JUser usr)]\<rparr>"
proof -
  assume "CHR '' '' \<notin> set (uid usr)"
  then have "createSendToken demo_lib demo_env (uid usr) 5000 = Inr (''tok.'' @ uid usr)"
    by (simp add: createSendToken_def demo_lib_def demo_env_def)
  then show ?thesis
    using demo_expiry
    by (simp add: sendToken_def res_json_def res_cookie_def new_response_def)
       (simp add: demo_env_def)
qed



section \<open>Log-in does not tell a wrong password from an unknown email\<close>

text \<open>
  Claim C4. A log-in whose email is not stored and a log-in whose email is stored but whose
  password fails the comparison with the stored hash end in the same way: both pass the
  error with message "Invalid email or password" and status 401 on, and neither writes a
  response, so the result does not tell the two cases apart.
\<close>

theorem logIn_same_failure:
  "field (req_body r1) ''email'' = Some e1 \<and> e1 \<noteq> [] \<and>
   field (req_body r1) ''password'' = Some p1 \<and> p1 \<noteq> [] \<and>
   findOne_select_password d e1 = None \<and>
   field (req_body r2) ''email'' = Some e2 \<and> e2 \<noteq> [] \<and>
   field (req_body r2) ''password'' = Some p2 \<and> p2 \<noteq> [] \<and>
   findOne_select_password d e2 = Some usr \<and> password usr = Some h \<and>
   \<not> comparePasswords L p2 h \<longrightarrow>
     logIn L E d r1 t1 = NextError (ErrorHandler ''Invalid email or password'' 401) \<and>
     logIn L E d r2 t2 = NextError (ErrorHandler ''Invalid email or password'' 401) \<and>
     logIn L E d r2 t2 = logIn L E d r1 t1"
  by (simp add: logIn_def invalid_email_or_password_def)

theorem logIn_same_failure_witness:
  "findOne_select_password demo_db ''bob@example.com'' = None \<and>
   findOne_select_password demo_db ''alice@example.com'' = Some alice \<and>
   password alice = Some ''#pw1'' \<and>
   \<not> comparePasswords demo_lib ''pw2'' ''#pw1'' \<and>
   logIn demo_lib demo_env demo_db
     (demo_request\<lparr>req_body := [(''email'', ''bob@example.com''), (''password'', ''pw2'')]\<rparr>) 5000 =
     NextError (ErrorHandler ''Invalid email or password'' 401) \<and>
   logIn demo_lib demo_env demo_db
     (demo_request\<lparr>req_body := [(''email'', ''alice@example.com''), (''password'', ''pw2'')]\<rparr>) 5000 =
     NextError (ErrorHandler ''Invalid email or password'' 401)"
proof -
  have unknown: "findOne_select_password demo_db ''bob@example.com'' = None"
    by (simp add: findOne_select_password_def demo_db_def alice_def)
  have known: "findOne_select_password demo_db ''alice@example.com'' = Some alice"
    by (simp add: findOne_select_password_def demo_db_def alice_def)
  have hash: "password alice = Some ''#pw1''"
    by (simp add: alice_def)
  have wrong: "\<not> comparePasswords demo_lib ''pw2'' ''#pw1''"
    by (simp add: demo_lib_def)
  show ?thesis
    using logIn_same_failure
            [of "demo_request\<lparr>req_body := [(''email'', ''bob@example.com''), (''password'', ''pw2'')]\<rparr>"
                "''bob@example.com''" "''pw2''" demo_db
                "demo_request\<lparr>req_body := [(''email'', ''alice@example.com''), (''password'', ''pw2'')]\<rparr>"
                "''alice@example.com''" "''pw2''" alice "''#pw1''" demo_lib demo_env 5000 5000]
          unknown known hash wrong
    by (simp add: field_def)
qed

section \<open>The allow-list of the profile update\<close>

lemma field_update: "field (AList.update k v al) k' = (if k' = k then Some v else field al k')"
  by (simp add: field_def update_conv')

lemma field_filterObject_loop:
  "field (filterObject_loop obj allowed ks acc) k =
     (if k \<in> set ks \<and> k \<in> set allowed \<and> field obj k \<noteq> None then field obj k else field acc k)"
proof (induction ks arbitrary: acc)
  case Nil
  then show ?case by simp
next
  case (Cons key ks)
  show ?case
    by (cases "field obj key") (auto simp: Cons.IH field_update)
qed

lemma field_filterObject:
  "field (filterObject obj allowed) k = (if k \<in> set allowed then field obj k else None)"
proof -
  have "k \<in> set (map fst obj) \<longleftrightarrow> field obj k \<noteq> None"
    by (simp add: field_def map_of_eq_None_iff)
  then show ?thesis
    unfolding filterObject_def by (simp add: field_filterObject_loop) (simp add: field_def)
qed

lemma keys_filterObject_loop:
  "fst ` set (filterObject_loop obj allowed ks acc) \<subseteq> fst ` set acc \<union> set allowed"
proof (induction ks arbitrary: acc)
  case Nil
  then show ?case by simp
next
  case (Cons key ks)
  show ?case
  proof (cases "key \<in> set allowed")
    case False
    then show ?thesis using Cons.IH [of acc] by simp
  next
    case True
    show ?thesis
    proof (cases "field obj key")
      case None
      then show ?thesis using True Cons.IH [of acc] by simp
    next
      case (Some v)
      have "fst ` set (AList.update key v acc) \<subseteq> fst ` set acc \<union> set allowed"
        using True by (auto simp: dom_update)
      moreover have "fst ` set (filterObject_loop obj allowed ks (AList.update key v acc))
                       \<subseteq> fst ` set (AList.update key v acc) \<union> set allowed"
        by (rule Cons.IH)
      ultimately have "fst ` set (filterObject_loop obj allowed ks (AList.update key v acc))
                       \<subseteq> fst ` set acc \<union> set allowed"
        by blast
      then show ?thesis
        using True Some by simp
    qed
  qed
qed

lemma distinct_filterObject_loop:
  "distinct (map fst acc) \<Longrightarrow> distinct (map fst (filterObject_loop obj allowed ks acc))"
  by (induction ks arbitrary: acc) (auto simp: distinct_update split: option.splits)

lemma filterObject_loop_rebuild:
  assumes "distinct (map fst (acc @ rest))" and "fst ` set rest \<subseteq> set allowed"
    and "\<forall>(k, v) \<in> set rest. field obj k = Some v"
  shows "filterObject_loop obj allowed (map fst rest) acc = acc @ rest"
  using assms
proof (induction rest arbitrary: acc)
  case Nil
  then show ?case by simp
next
  case (Cons kv rest)
  obtain k v where kv: "kv = (k, v)" by (cases kv)
  have fresh: "k \<notin> fst ` set acc"
    using Cons.prems(1) kv by auto
  then have upd: "AList.update k v acc = acc @ [(k, v)]"
    by (induction acc) auto
  have "filterObject_loop obj allowed (map fst (kv # rest)) acc =
        filterObject_loop obj allowed (map fst rest) (acc @ [(k, v)])"
    using Cons.prems(2,3) kv upd by simp
  also have "\<dots> = (acc @ [(k, v)]) @ rest"
    using Cons.prems kv by (intro Cons.IH) auto
  finally show ?case
    using kv by simp
qed

lemma filterObject_idem:
  "filterObject (filterObject obj allowed) allowed = filterObject obj allowed"
proof -
  let ?f = "filterObject obj allowed"
  have d: "distinct (map fst ?f)"
    unfolding filterObject_def by (rule distinct_filterObject_loop) simp
  have a: "fst ` set ?f \<subseteq> set allowed"
    unfolding filterObject_def using keys_filterObject_loop [of obj allowed "map fst obj" "[]"] by simp
  have l: "\<forall>(k, v) \<in> set ?f. field ?f k = Some v"
    using d by (auto simp: field_def)
  have "filterObject_loop ?f allowed (map fst ?f) [] = [] @ ?f"
    using d a l by (intro filterObject_loop_rebuild) auto
  then show ?thesis
    by (simp add: filterObject_def)
qed

text \<open>
  Claim C5. The profile update applies, through the data layer, the fields name, email and
  status of the request body and no other field: it hands the data layer the filtered
  object for the user of the request and answers 200 with the document the data layer
  returns (an error of the data layer is passed on). The filtered object has exactly the
  fields name, email and status of the body, with the body's values, so a body gives the
  same update as its filtered form. For the body with name "x" and role "r" the data layer
  is handed the name alone, and the update is the update of the body without the role.
\<close>

theorem updateMe_allow_list:
  "(req_user req = Some ru \<and>
    findByIdAndUpdate L d (uid ru)
      (filterObject (req_body req) [''name'', ''email'', ''status'']) = Inr (d', updated) \<longrightarrow>
      updateMe L d req =
        (Responded
           \<lparr>statusCode = 200, cookies = [],
            body = [(''status'', JStr ''success''),
                    (''user'', (case updated of None \<Rightarrow> JNull | Some u \<Rightarrow> JUser u))]\<rparr>,
         d')) \<and>
   (req_user req = Some ru \<and>
    findByIdAndUpdate L d (uid ru)
      (filterObject (req_body req) [''name'', ''email'', ''status'']) = Inl e \<longrightarrow>
      updateMe L d req = (NextError e, d)) \<and>
   field (filterObject obj [''name'', ''email'', ''status'']) k =
     (if k \<in> {''name'', ''email'', ''status''} then field obj k else None) \<and>
   updateMe L d (req\<lparr>req_body := obj\<rparr>) =
     updateMe L d (req\<lparr>req_body := filterObject obj [''name'', ''email'', ''status'']\<rparr>) \<and>
   filterObject [(''name'', x), (''role'', r)] [''name'', ''email'', ''status''] = [(''name'', x)] \<and>
   (req_user req = Some ru \<and> req_body req = [(''name'', x), (''role'', r)] \<and>
    findByIdAndUpdate L d (uid ru) [(''name'', x)] = Inr (d', updated) \<longrightarrow>
      updateMe L d req =
        (Responded
           \<lparr>statusCode = 200, cookies = [],
            body = [(''status'', JStr ''success''),
                    (''user'', (case updated of None \<Rightarrow> JNull | Some u \<Rightarrow> JUser u))]\<rparr>,
         d')) \<and>
   updateMe L d (req\<lparr>req_body := [(''name'', x), (''role'', r)]\<rparr>) =
     updateMe L d (req\<lparr>req_body := [(''name'', x)]\<rparr>)"
proof -
  let ?allowed = "[''name'', ''email'', ''status'']"
  have applied: "updateMe L d req =
        (Responded
           \<lparr>statusCode = 200, cookies = [],
            body = [(''status'', JStr ''success''),
                    (''user'', (case updated of None \<Rightarrow> JNull | Some u \<Rightarrow> JUser u))]\<rparr>,
         d')"
    if "req_user req = Some ru"
      and "findByIdAndUpdate L d (uid ru) (filterObject (req_body req) ?allowed) = Inr (d', updated)"
    using that by (simp add: updateMe_def res_json_def new_response_def)
  have failed: "updateMe L d req = (NextError e, d)"
    if "req_user req = Some ru"
      and "findByIdAndUpdate L d (uid ru) (filterObject (req_body req) ?allowed) = Inl e"
    using that by (simp add: updateMe_def)
  have lookup: "field (filterObject obj ?allowed) k =
      (if k \<in> {''name'', ''email'', ''status''} then field obj k else None)"
    using field_filterObject [of obj ?allowed k] by simp
  have same: "updateMe L d (req\<lparr>req_body := obj\<rparr>) =
      updateMe L d (req\<lparr>req_body := filterObject obj ?allowed\<rparr>)"
    by (simp add: updateMe_def filterObject_idem)
  have example: "filterObject [(''name'', x), (''role'', r)] ?allowed = [(''name'', x)]"
    by (simp add: filterObject_def field_def)
  have handed: "updateMe L d req =
        (Responded
           \<lparr>statusCode = 200, cookies = [],
            body = [(''status'', JStr ''success''),
                    (''user'', (case updated of None \<Rightarrow> JNull | Some u \<Rightarrow> JUser u))]\<rparr>,
         d')"
    if "req_user req = Some ru" and "req_body req = [(''name'', x), (''role'', r)]"
      and "findByIdAndUpdate L d (uid ru) [(''name'', x)] = Inr (d', updated)"
    using that example by (intro applied) simp_all
  have "filterObject [(''name'', x)] ?allowed = [(''name'', x)]"
    by (simp add: filterObject_def field_def)
  then have role: "updateMe L d (req\<lparr>req_body := [(''name'', x), (''role'', r)]\<rparr>) =
      updateMe L d (req\<lparr>req_body := [(''name'', x)]\<rparr>)"
    using example by (simp add: updateMe_def)
  show ?thesis
    using applied failed lookup same example handed role by blast
qed

text \<open>
  The body with name \<^verbatim>\<open>X\<close> and role \<^verbatim>\<open>admin\<close>, against a data layer that would write
  the role if it were handed it: the stored name becomes \<^verbatim>\<open>X\<close>, the stored role stays
  \<^verbatim>\<open>user\<close>.
\<close>

theorem updateMe_allow_list_witness:
  "findByIdAndUpdate demo_lib demo_db ''u1'' [(''name'', ''X''), (''role'', ''admin'')] =
     Inr ([alice\<lparr>name := ''X'', role := ''admin''\<rparr>],
          Some (alice\<lparr>name := ''X'', role := ''admin''\<rparr>)) \<and>
   findByIdAndUpdate demo_lib demo_db ''u1'' [(''name'', ''X'')] =
     Inr ([alice\<lparr>name := ''X''\<rparr>], Some (alice\<lparr>name := ''X''\<rparr>)) \<and>
   role (alice\<lparr>name := ''X''\<rparr>) = ''user'' \<and>
   updateMe demo_lib demo_db
     (demo_request\<lparr>req_user := Some (hide_password alice),
                    req_body := [(''name'', ''X''), (''role'', ''admin'')]\<rparr>) =
     (Responded
        \<lparr>statusCode = 200, cookies = [],
         body = [(''status'', JStr ''success''), (''user'', JUser (alice\<lparr>name := ''X''\<rparr>))]\<rparr>,
      [alice\<lparr>name := ''X''\<rparr>])"
proof -
  let ?req = "demo_request\<lparr>req_user := Some (hide_password alice),
                           req_body := [(''name'', ''X''), (''role'', ''admin'')]\<rparr>"
  have unfiltered: "findByIdAndUpdate demo_lib demo_db ''u1'' [(''name'', ''X''), (''role'', ''admin'')] =
      Inr ([alice\<lparr>name := ''X'', role := ''admin''\<rparr>],
           Some (alice\<lparr>name := ''X'', role := ''admin''\<rparr>))"
    by (simp add: demo_lib_def demo_db_def alice_def write_fields_def)
  have filtered: "findByIdAndUpdate demo_lib demo_db ''u1'' [(''name'', ''X'')] =
      Inr ([alice\<lparr>name := ''X''\<rparr>], Some (alice\<lparr>name := ''X''\<rparr>))"
    by (simp add: demo_lib_def demo_db_def alice_def write_fields_def)
  have kept: "role (alice\<lparr>name := ''X''\<rparr>) = ''user''"
    by (simp add: alice_def)
  have who: "req_user ?req = Some (hide_password alice)" "uid (hide_password alice) = ''u1''"
    "req_body ?req = [(''name'', ''X''), (''role'', ''admin'')]"
    by (simp_all add: hide_password_def alice_def)
  have "updateMe demo_lib demo_db ?req =
     (Responded
        \<lparr>statusCode = 200, cookies = [],
         body = [(''status'', JStr ''success''),
                 (''user'', (case Some (alice\<lparr>name := ''X''\<rparr>) of
                               None \<Rightarrow> JNull | Some u \<Rightarrow> JUser u))]\<rparr>,
      [alice\<lparr>name := ''X''\<rparr>])"
    using updateMe_allow_list
            [of ?req "hide_password alice" demo_lib demo_db "[alice\<lparr>name := ''X''\<rparr>]"
                "Some (alice\<lparr>name := ''X''\<rparr>)" _ _ _ "''X''" "''admin''"]
          who filtered
    by simp
  then show ?thesis
    using unfiltered filtered kept by simp
qed

section \<open>Password update\<close>

lemma find_uid: "find (\<lambda>u. uid u = i) d = Some usr \<Longrightarrow> uid usr = i"
  by (auto simp: find_Some_iff)

lemma find_replaced:
  "find (\<lambda>u. uid u = i) d = Some usr \<Longrightarrow> uid usr' = i \<Longrightarrow>
   find (\<lambda>u. uid u = i) (map (\<lambda>x. if uid x = i then usr' else x) d) = Some usr'"
  by (induction d) (auto split: if_splits)

lemma save_accepts:
  assumes "findById_select_password d i = Some usr"
    and "password cand = Some n" and "passwordConfirm cand = Some n" and "uid cand = i"
  shows "\<exists>d'. save L d cand now =
           Inr (d', cand\<lparr>password := Some (hashPassword L n), passwordConfirm := None,
                         passwordChangedAt := Some now\<rparr>) \<and>
         findById_select_password d' i =
           Some (cand\<lparr>password := Some (hashPassword L n), passwordConfirm := None,
                       passwordChangedAt := Some now\<rparr>)"
  using assms find_replaced [of i d usr
      "cand\<lparr>password := Some (hashPassword L n), passwordConfirm := None,
            passwordChangedAt := Some now\<rparr>"]
  by (simp add: save_def findById_select_password_def Let_def)

lemma save_stores:
  assumes "save L d cand now = Inr (d', usr')"
    and "findById_select_password d (uid cand) = Some usr"
  shows "findById_select_password d' (uid cand) = Some usr' \<and> (\<exists>h. password usr' = Some h)"
  using assms find_replaced [of "uid cand" d usr usr']
  by (auto simp: save_def findById_select_password_def Let_def split: option.splits if_splits)

lemma save_rejects:
  "password cand = None \<or> passwordConfirm cand \<noteq> password cand \<Longrightarrow>
   save L d cand now = Inl (Thrown ''ValidationError'')"
  by (auto simp: save_def split: option.splits)

text \<open>
  Claim C6, as amended. With the user of the request stored, the password update passes
  the error "Current password is incorrect" with status 400 on and leaves the stored users
  as they were when the current password is missing, empty or fails the comparison with the
  stored hash. When it matches, there are three ends. If the new password is missing or
  differs from its confirmation, the data layer rejects the document: nothing is stored and
  no response is written. Otherwise the stored password becomes the hash of the new
  password and the date of the password change becomes now; then, if the token is signed
  and the expiry of its cookie is a valid date, the response has status 200 and carries the
  token issued now, and if not, the error is passed on with the new password stored.
\<close>

theorem updateMyPassword_checks_current_password:
  assumes "req_user req = Some ru"
    and "findById_select_password d (uid ru) = Some usr"
    and "password usr = Some h"
  shows "(\<not> truthy (field (req_body req) ''password'') \<or>
          (\<exists>pw. field (req_body req) ''password'' = Some pw \<and> \<not> comparePasswords L pw h) \<longrightarrow>
            updateMyPassword L E d req now =
              (NextError (ErrorHandler ''Current password is incorrect'' 400), d)) \<and>
         (field (req_body req) ''password'' = Some pw \<and> pw \<noteq> [] \<and> comparePasswords L pw h \<and>
          (field (req_body req) ''newPassword'' = None \<or>
           field (req_body req) ''passwordConfirm'' \<noteq> field (req_body req) ''newPassword'') \<longrightarrow>
            updateMyPassword L E d req now = (NextError (Thrown ''ValidationError''), d)) \<and>
         (field (req_body req) ''password'' = Some pw \<and> pw \<noteq> [] \<and> comparePasswords L pw h \<and>
          field (req_body req) ''newPassword'' = Some n \<and>
          field (req_body req) ''passwordConfirm'' = Some n \<and>
          createSendToken L E (uid usr) now = Inr tok \<and>
          new_Date (cookie_expiry_value L E now) = Some date \<longrightarrow>
            (\<exists>res d'. updateMyPassword L E d req now = (Responded res, d') \<and>
               statusCode res = 200 \<and>
               map_of (body res) ''token'' = Some (JStr tok) \<and>
               map_option fst (jwt_cookie res) = Some tok \<and>
               findById_select_password d' (uid ru) =
                 Some (usr\<lparr>password := Some (hashPassword L n), passwordConfirm := None,
                           passwordChangedAt := Some now\<rparr>))) \<and>
         (field (req_body req) ''password'' = Some pw \<and> pw \<noteq> [] \<and> comparePasswords L pw h \<and>
          field (req_body req) ''newPassword'' = Some n \<and>
          field (req_body req) ''passwordConfirm'' = Some n \<and>
          sendToken L E now
            (usr\<lparr>password := Some (hashPassword L n), passwordConfirm := None,
                 passwordChangedAt := Some now\<rparr>) 200 new_response = Inl e \<longrightarrow>
            (\<exists>d'. updateMyPassword L E d req now = (NextError e, d') \<and>
               findById_select_password d' (uid ru) =
                 Some (usr\<lparr>password := Some (hashPassword L n), passwordConfirm := None,
                           passwordChangedAt := Some now\<rparr>)))"
proof -
  let ?new = "usr\<lparr>password := Some (hashPassword L n), passwordConfirm := None,
                  passwordChangedAt := Some now\<rparr>"
  have uid: "uid usr = uid ru"
    using assms(2) unfolding findById_select_password_def by (rule find_uid)
  have rejected: "updateMyPassword L E d req now = (NextError current_password_incorrect, d)"
    if "\<not> truthy (field (req_body req) ''password'') \<or>
        (\<exists>pw. field (req_body req) ''password'' = Some pw \<and> \<not> comparePasswords L pw h)"
  proof (cases "field (req_body req) ''password''")
    case None
    then show ?thesis
      using assms(1) by (simp add: updateMyPassword_def)
  next
    case (Some pw)
    show ?thesis
    proof (cases "pw = []")
      case True
      then show ?thesis
        using Some assms(1) by (simp add: updateMyPassword_def)
    next
      case False
      then have "\<not> comparePasswords L pw h"
        using that Some by simp
      then show ?thesis
        using Some False assms by (simp add: updateMyPassword_def)
    qed
  qed
  have saving: "updateMyPassword L E d req now =
      (case save L d
              (usr\<lparr>password := field (req_body req) ''newPassword'',
                   passwordConfirm := field (req_body req) ''passwordConfirm''\<rparr>) now of
         Inl e \<Rightarrow> (NextError e, d)
       | Inr (d', usr') \<Rightarrow>
           (case sendToken L E now usr' 200 new_response of
              Inl e \<Rightarrow> (NextError e, d')
            | Inr res \<Rightarrow> (Responded res, d')))"
    if "field (req_body req) ''password'' = Some pw" "pw \<noteq> []" "comparePasswords L pw h"
    using that assms by (simp add: updateMyPassword_def)
  have invalid: "updateMyPassword L E d req now = (NextError (Thrown ''ValidationError''), d)"
    if ok: "field (req_body req) ''password'' = Some pw" "pw \<noteq> []" "comparePasswords L pw h"
      and bad: "field (req_body req) ''newPassword'' = None \<or>
        field (req_body req) ''passwordConfirm'' \<noteq> field (req_body req) ''newPassword''"
  proof -
    have "save L d
            (usr\<lparr>password := field (req_body req) ''newPassword'',
                 passwordConfirm := field (req_body req) ''passwordConfirm''\<rparr>) now =
          Inl (Thrown ''ValidationError'')"
      using bad by (intro save_rejects) auto
    then show ?thesis
      using saving [OF ok] by simp
  qed
  have saved: "\<exists>d'. updateMyPassword L E d req now =
        (case sendToken L E now ?new 200 new_response of
           Inl e \<Rightarrow> (NextError e, d')
         | Inr res \<Rightarrow> (Responded res, d')) \<and>
        findById_select_password d' (uid ru) = Some ?new"
    if ok: "field (req_body req) ''password'' = Some pw" "pw \<noteq> []" "comparePasswords L pw h"
      and new: "field (req_body req) ''newPassword'' = Some n"
        "field (req_body req) ''passwordConfirm'' = Some n"
  proof -
    let ?cand = "usr\<lparr>password := Some n, passwordConfirm := Some n\<rparr>"
    obtain d' where written: "save L d ?cand now = Inr (d', ?new)"
      and stored: "findById_select_password d' (uid ru) = Some ?new"
      using save_accepts [of d "uid ru" usr ?cand n L now] assms(2) uid by auto
    show ?thesis
      using saving [OF ok] new written stored by auto
  qed
  have replaced: "\<exists>res d'. updateMyPassword L E d req now = (Responded res, d') \<and>
        statusCode res = 200 \<and> map_of (body res) ''token'' = Some (JStr tok) \<and>
        map_option fst (jwt_cookie res) = Some tok \<and>
        findById_select_password d' (uid ru) = Some ?new"
    if ok: "field (req_body req) ''password'' = Some pw" "pw \<noteq> []" "comparePasswords L pw h"
      and new: "field (req_body req) ''newPassword'' = Some n"
        "field (req_body req) ''passwordConfirm'' = Some n"
      and signed: "createSendToken L E (uid usr) now = Inr tok"
      and valid: "new_Date (cookie_expiry_value L E now) = Some date"
  proof -
    obtain d' where run: "updateMyPassword L E d req now =
        (case sendToken L E now ?new 200 new_response of
           Inl e \<Rightarrow> (NextError e, d')
         | Inr res \<Rightarrow> (Responded res, d'))"
      and stored: "findById_select_password d' (uid ru) = Some ?new"
      using saved [OF ok new] by blast
    have "sendToken L E now ?new 200 new_response =
        Inr (res_json
               (res_cookie new_response ''jwt'' tok
                  \<lparr>expires = date,
                   secure = (if NODE_ENV E = Some ''development'' then False else True),
                   sameSite = (if NODE_ENV E = Some ''development'' then ''Strict'' else ''None''),
                   httpOnly = True, path = ''/''\<rparr>)
               200 [(''status'', JStr ''success''), (''token'', JStr tok), (''user'', JUser ?new)])"
      using signed valid by (simp add: sendToken_def)
    then show ?thesis
      using run stored by (simp add: res_json_def res_cookie_def new_response_def jwt_cookie_def)
  qed
  have unsent: "\<exists>d'. updateMyPassword L E d req now = (NextError e, d') \<and>
        findById_select_password d' (uid ru) = Some ?new"
    if ok: "field (req_body req) ''password'' = Some pw" "pw \<noteq> []" "comparePasswords L pw h"
      and new: "field (req_body req) ''newPassword'' = Some n"
        "field (req_body req) ''passwordConfirm'' = Some n"
      and failed: "sendToken L E now ?new 200 new_response = Inl e"
    using saved [OF ok new] failed by auto
  show ?thesis
    using rejected invalid replaced unsent by (simp add: current_password_incorrect_def)
qed

text \<open>
  A wrong current password leaves \<^verbatim>\<open>#pw1\<close> stored; the right one with a confirmed new
  password stores \<^verbatim>\<open>#pw2\<close> and the date 5000.
\<close>

theorem updateMyPassword_checks_current_password_witness:
  "findById_select_password demo_db (uid (hide_password alice)) = Some alice \<and>
   password alice = Some ''#pw1'' \<and>
   \<not> comparePasswords demo_lib ''bad'' ''#pw1'' \<and>
   updateMyPassword demo_lib demo_env demo_db
     (demo_request\<lparr>req_user := Some (hide_password alice),
        req_body := [(''password'', ''bad''), (''newPassword'', ''pw2''),
                     (''passwordConfirm'', ''pw2'')]\<rparr>) 5000 =
     (NextError (ErrorHandler ''Current password is incorrect'' 400), demo_db) \<and>
   comparePasswords demo_lib ''pw1'' ''#pw1'' \<and>
   createSendToken demo_lib demo_env (uid alice) 5000 = Inr ''tok.u1'' \<and>
   new_Date (cookie_expiry_value demo_lib demo_env 5000) = Some 7776005000 \<and>
   (\<exists>res d'. updateMyPassword demo_lib demo_env demo_db
        (demo_request\<lparr>req_user := Some (hide_password alice),
           req_body := [(''password'', ''pw1''), (''newPassword'', ''pw2''),
                        (''passwordConfirm'', ''pw2'')]\<rparr>) 5000 = (Responded res, d') \<and>
      statusCode res = 200 \<and>
      map_of (body res) ''token'' = Some (JStr ''tok.u1'') \<and>
      findById_select_password d' ''u1'' =
        Some (alice\<lparr>password := Some ''#pw2'', passwordChangedAt := Some 5000\<rparr>)) \<and>
   updateMyPassword demo_lib demo_env demo_db
     (demo_request\<lparr>req_user := Some (hide_password alice),
        req_body := [(''password'', ''pw1''), (''newPassword'', ''pw2''),
                     (''passwordConfirm'', ''pw3'')]\<rparr>) 5000 =
     (NextError (Thrown ''ValidationError''), demo_db)"
proof -
  let ?bad = "demo_request\<lparr>req_user := Some (hide_password alice),
                req_body := [(''password'', ''bad''), (''newPassword'', ''pw2''),
                             (''passwordConfirm'', ''pw2'')]\<rparr>"
  let ?good = "demo_request\<lparr>req_user := Some (hide_password alice),
                 req_body := [(''password'', ''pw1''), (''newPassword'', ''pw2''),
                              (''passwordConfirm'', ''pw2'')]\<rparr>"
  let ?unconfirmed = "demo_request\<lparr>req_user := Some (hide_password alice),
                 req_body := [(''password'', ''pw1''), (''newPassword'', ''pw2''),
                              (''passwordConfirm'', ''pw3'')]\<rparr>"
  have stored: "findById_select_password demo_db (uid (hide_password alice)) = Some alice"
    by (simp add: findById_select_password_def demo_db_def alice_def hide_password_def)
  have hash: "password alice = Some ''#pw1''"
    by (simp add: alice_def)
  have signed: "createSendToken demo_lib demo_env (uid alice) 5000 = Inr ''tok.u1''"
    by (simp add: createSendToken_def demo_lib_def demo_env_def alice_def)
  have cmp: "\<not> comparePasswords demo_lib ''bad'' ''#pw1''" "comparePasswords demo_lib ''pw1'' ''#pw1''"
    "hashPassword demo_lib ''pw2'' = ''#pw2''"
    by (simp_all add: demo_lib_def)
  have ids: "uid (hide_password alice) = ''u1''" "passwordConfirm alice = None"
    by (simp_all add: hide_password_def alice_def)
  have bad: "updateMyPassword demo_lib demo_env demo_db ?bad 5000 =
      (NextError (ErrorHandler ''Current password is incorrect'' 400), demo_db)"
    using updateMyPassword_checks_current_password
            [of ?bad "hide_password alice" demo_db alice "''#pw1''" demo_lib demo_env 5000,
             OF _ stored hash] cmp
    by (simp add: field_def)
  have fields: "req_user ?good = Some (hide_password alice)"
    "field (req_body ?good) ''password'' = Some ''pw1''" "''pw1'' \<noteq> []"
    "field (req_body ?good) ''newPassword'' = Some ''pw2''"
    "field (req_body ?good) ''passwordConfirm'' = Some ''pw2''"
    by (simp_all add: field_def)
  have "\<exists>res d'. updateMyPassword demo_lib demo_env demo_db ?good 5000 = (Responded res, d') \<and>
      statusCode res = 200 \<and> map_of (body res) ''token'' = Some (JStr ''tok.u1'') \<and>
      map_option fst (jwt_cookie res) = Some ''tok.u1'' \<and>
      findById_select_password d' (uid (hide_password alice)) =
        Some (alice\<lparr>password := Some (hashPassword demo_lib ''pw2''), passwordConfirm := None,
                     passwordChangedAt := Some 5000\<rparr>)"
    using updateMyPassword_checks_current_password
            [of ?good "hide_password alice" demo_db alice "''#pw1''" demo_lib demo_env 5000
                "''pw1''" "''pw2''" "''tok.u1''" 7776005000,
             OF fields(1) stored hash] fields(2-5) cmp(2) signed demo_expiry
    by blast
  then have good: "\<exists>res d'. updateMyPassword demo_lib demo_env demo_db ?good 5000 = (Responded res, d') \<and>
      statusCode res = 200 \<and> map_of (body res) ''token'' = Some (JStr ''tok.u1'') \<and>
      findById_select_password d' ''u1'' =
        Some (alice\<lparr>password := Some ''#pw2'', passwordChangedAt := Some 5000\<rparr>)"
    using cmp(3) ids by (auto simp: alice_def)
  have unconfirmed: "updateMyPassword demo_lib demo_env demo_db ?unconfirmed 5000 =
      (NextError (Thrown ''ValidationError''), demo_db)"
    using updateMyPassword_checks_current_password
            [of ?unconfirmed "hide_password alice" demo_db alice "''#pw1''" demo_lib demo_env 5000
                "''pw1''",
             OF _ stored hash] cmp
    by (simp add: field_def)
  show ?thesis
    using stored hash cmp signed demo_expiry bad good unconfirmed by simp
qed

text \<open>
  The claim as stated (a matching current password is enough for the new password and the
  200 response) fails twice. With the right current password and a confirmation that
  differs from the new password, the data layer rejects the document: no response is
  written and the stored users stay as they were. With the right current password, a
  confirmed new password and no cookie lifetime configured, the expiry of the cookie is an
  Invalid Date: the new hash is stored, but the error is passed on and no 200 response is
  written.
\<close>

theorem updateMyPassword_counterexample:
  "comparePasswords demo_lib ''pw1'' ''#pw1'' \<and>
   findById_select_password demo_db ''u1'' = Some alice \<and>
   updateMyPassword demo_lib demo_env demo_db
     (demo_request\<lparr>req_user := Some (hide_password alice),
        req_body := [(''password'', ''pw1''), (''newPassword'', ''pw2''),
                     (''passwordConfirm'', ''pw3'')]\<rparr>) 5000 =
     (NextError (Thrown ''ValidationError''), demo_db) \<and>
   updateMyPassword demo_lib (demo_env\<lparr>COOKIE_EXPIRES_IN := None\<rparr>) demo_db
     (demo_request\<lparr>req_user := Some (hide_password alice),
        req_body := [(''password'', ''pw1''), (''newPassword'', ''pw2''),
                     (''passwordConfirm'', ''pw2'')]\<rparr>) 5000 =
     (NextError (Thrown ''TypeError''),
      [alice\<lparr>password := Some ''#pw2'', passwordChangedAt := Some 5000\<rparr>])"
  by (simp add: updateMyPassword_def save_def Let_def sendToken_def createSendToken_def
        new_Date_def cookie_expiry_value_def field_def findById_select_password_def
        demo_lib_def demo_env_def demo_db_def demo_request_def alice_def hide_password_def)

section \<open>What the success responses return\<close>

text \<open>
  Claim C9. Every success response of log-in carries, as its user object, the document of
  the stored user fetched with the password field selected, stored hash included. Every
  success response of the password update carries the document it has just saved, whose
  password field is the hash now stored for that user.
\<close>

theorem success_responses_carry_password_hash:
  "(logIn L E d req now = Responded res \<longrightarrow>
      (\<exists>em usr h. field (req_body req) ''email'' = Some em \<and>
         findOne_select_password d em = Some usr \<and> password usr = Some h \<and>
         map_of (body res) ''user'' = Some (JUser usr))) \<and>
   (updateMyPassword L E d req now = (Responded res, d') \<longrightarrow>
      (\<exists>ru usr h. req_user req = Some ru \<and>
         findById_select_password d' (uid ru) = Some usr \<and> password usr = Some h \<and>
         map_of (body res) ''user'' = Some (JUser usr)))"
proof -
  have login: "\<exists>em usr h. field (req_body req) ''email'' = Some em \<and>
         findOne_select_password d em = Some usr \<and> password usr = Some h \<and>
         map_of (body res) ''user'' = Some (JUser usr)"
    if "logIn L E d req now = Responded res"
    using that
    by (auto simp: logIn_def sendToken_def res_json_def
          split: option.splits if_splits sum.splits)
  have update: "\<exists>ru usr h. req_user req = Some ru \<and>
         findById_select_password d' (uid ru) = Some usr \<and> password usr = Some h \<and>
         map_of (body res) ''user'' = Some (JUser usr)"
    if run: "updateMyPassword L E d req now = (Responded res, d')"
  proof -
    obtain ru where ru: "req_user req = Some ru"
      using run by (cases "req_user req") (simp_all add: updateMyPassword_def)
    obtain usr0 where usr0: "findById_select_password d (uid ru) = Some usr0"
      using run ru
      by (cases "findById_select_password d (uid ru)")
         (simp_all add: updateMyPassword_def split: option.splits if_splits)
    have uid0: "uid usr0 = uid ru"
      using usr0 unfolding findById_select_password_def by (rule find_uid)
    let ?cand = "usr0\<lparr>password := field (req_body req) ''newPassword'',
                      passwordConfirm := field (req_body req) ''passwordConfirm''\<rparr>"
    obtain usr' where saved: "save L d ?cand now = Inr (d', usr')"
      and sent: "sendToken L E now usr' 200 new_response = Inr res"
      using run ru usr0
      by (auto simp: updateMyPassword_def split: option.splits if_splits sum.splits)
    have "findById_select_password d' (uid ?cand) = Some usr' \<and> (\<exists>h. password usr' = Some h)"
      using saved usr0 uid0 by (intro save_stores [of L d ?cand now d' usr' usr0]) simp_all
    moreover have "map_of (body res) ''user'' = Some (JUser usr')"
      using sent by (auto simp: sendToken_def res_json_def split: sum.splits option.splits)
    ultimately show ?thesis
      using ru uid0 by auto
  qed
  show ?thesis
    using login update by blast
qed

theorem success_responses_carry_password_hash_witness:
  "(\<exists>res. logIn demo_lib demo_env demo_db
       (demo_request\<lparr>req_body := [(''email'', ''alice@example.com''), (''password'', ''pw1'')]\<rparr>)
       5000 = Responded res \<and>
     map_of (body res) ''user'' = Some (JUser alice)) \<and>
   password alice = Some ''#pw1'' \<and>
   (\<exists>res d'. updateMyPassword demo_lib demo_env demo_db
       (demo_request\<lparr>req_user := Some (hide_password alice),
          req_body := [(''password'', ''pw1''), (''newPassword'', ''pw2''),
                       (''passwordConfirm'', ''pw2'')]\<rparr>) 5000 = (Responded res, d') \<and>
     map_of (body res) ''user'' =
       Some (JUser (alice\<lparr>password := Some ''#pw2'', passwordChangedAt := Some 5000\<rparr>)) \<and>
     findById_select_password d' ''u1'' =
       Some (alice\<lparr>password := Some ''#pw2'', passwordChangedAt := Some 5000\<rparr>))"
proof -
  let ?login = "demo_request\<lparr>req_body := [(''email'', ''alice@example.com''), (''password'', ''pw1'')]\<rparr>"
  let ?update = "demo_request\<lparr>req_user := Some (hide_password alice),
                   req_body := [(''password'', ''pw1''), (''newPassword'', ''pw2''),
                                (''passwordConfirm'', ''pw2'')]\<rparr>"
  let ?res = "\<lambda>usr. \<lparr>statusCode = 200,
                cookies = [(''jwt'', ''tok.u1'',
                            \<lparr>expires = 7776005000, secure = True, sameSite = ''None'',
                             httpOnly = True, path = ''/''\<rparr>)],
                body = [(''status'', JStr ''success''), (''token'', JStr ''tok.u1''),
                        (''user'', JUser usr)]\<rparr>"
  let ?new = "alice\<lparr>password := Some ''#pw2'', passwordChangedAt := Some 5000\<rparr>"
  have sent: "sendToken demo_lib demo_env 5000 usr 200 new_response = Inr (?res usr)"
    if "uid usr = ''u1''" for usr
    using that demo_sendToken [of usr] by simp
  have run1: "logIn demo_lib demo_env demo_db ?login 5000 = Responded (?res alice)"
    using sent [of alice]
    by (simp add: logIn_def field_def findOne_select_password_def demo_db_def alice_def)
       (simp add: demo_lib_def)
  have run2: "updateMyPassword demo_lib demo_env demo_db ?update 5000 = (Responded (?res ?new), [?new])"
    using sent [of ?new]
    by (simp add: updateMyPassword_def save_def Let_def field_def findById_select_password_def
          demo_db_def alice_def hide_password_def)
       (simp add: demo_lib_def)
  have hash: "password alice = Some ''#pw1''"
    by (simp add: alice_def)
  have "\<exists>em usr h. field (req_body ?login) ''email'' = Some em \<and>
          findOne_select_password demo_db em = Some usr \<and> password usr = Some h \<and>
          map_of (body (?res alice)) ''user'' = Some (JUser usr)"
    using success_responses_carry_password_hash
            [of demo_lib demo_env demo_db ?login 5000 "?res alice"] run1 by blast
  then have one: "map_of (body (?res alice)) ''user'' = Some (JUser alice)"
    by simp
  have "\<exists>ru usr h. req_user ?update = Some ru \<and>
          findById_select_password [?new] (uid ru) = Some usr \<and> password usr = Some h \<and>
          map_of (body (?res ?new)) ''user'' = Some (JUser usr)"
    using success_responses_carry_password_hash
            [of demo_lib demo_env demo_db ?update 5000 "?res ?new" "[?new]"] run2
    by blast
  then have two: "findById_select_password [?new] ''u1'' = Some ?new"
    by (auto simp: hide_password_def alice_def)
  show ?thesis
    using run1 run2 hash one two by simp
qed

section \<open>Log-out\<close>

text \<open>
  Claim C7. Log-out answers 200 and overwrites the jwt cookie with the value
  \<^verbatim>\<open>loggedout\<close> and an expiry 10 seconds (10000 ms) after now. It changes no stored
  state: the gate behaves after a log-out as it would have without it, so a token that
  still verifies, presented in the Authorization header after the log-out, is accepted.
\<close>

theorem logOut_is_stateless:
  "logOut E d req now =
     (Responded
        \<lparr>statusCode = 200,
         cookies =
           [(''jwt'', ''loggedout'',
             \<lparr>expires = now + 10000,
              secure = (NODE_ENV E \<noteq> Some ''development''),
              sameSite = (if NODE_ENV E = Some ''development'' then ''Strict'' else ''None''),
              httpOnly = True,
              path = ''/''\<rparr>)],
         body = [(''status'', JStr ''success'')]\<rparr>,
      d) \<and>
   protect L E (snd (logOut E d req now)) req' t = protect L E d req' t \<and>
   (now \<le> t \<and> authorization req' = Some (''Bearer '' @ tok) \<and> tok \<noteq> [] \<and>
    CHR '' '' \<notin> set tok \<and> jwt_verify L tok (JWT_SECRET E) t = Inr dec \<and>
    findById d (d_id dec) = Some u \<and> \<not> passwordChangedAfter u (d_iat dec) \<longrightarrow>
      fst (protect L E (snd (logOut E d req now)) req' t) = Next u)"
proof -
  have out: "snd (logOut E d req now) = d"
    by (simp add: logOut_def)
  have accepted: "fst (protect L E d req' t) = Next u"
    if "authorization req' = Some (''Bearer '' @ tok)" "tok \<noteq> []" "CHR '' '' \<notin> set tok"
      "jwt_verify L tok (JWT_SECRET E) t = Inr dec" "findById d (d_id dec) = Some u"
      "\<not> passwordChangedAfter u (d_iat dec)"
    using that protect_accepts [of req' tok L E t dec d u] extract_token_bearer [of req' tok]
    by simp
  show ?thesis
    using out accepted by (simp add: logOut_def res_json_def res_cookie_def new_response_def)
qed

text \<open>
  The token issued at 5000 ms is presented in the header at 9000 ms, after a log-out at
  6000 ms.
\<close>

theorem logOut_is_stateless_witness:
  "(6000 :: int) \<le> 9000 \<and>
   jwt_verify demo_lib ''tok.u1'' (JWT_SECRET demo_env) 9000 = Inr \<lparr>d_id = ''u1'', d_iat = 5\<rparr> \<and>
   findById demo_db ''u1'' = Some (hide_password alice) \<and>
   \<not> passwordChangedAfter (hide_password alice) 5 \<and>
   fst (logOut demo_env demo_db demo_request 6000) =
     Responded
       \<lparr>statusCode = 200,
        cookies = [(''jwt'', ''loggedout'',
                    \<lparr>expires = 16000, secure = True, sameSite = ''None'', httpOnly = True,
                     path = ''/''\<rparr>)],
        body = [(''status'', JStr ''success'')]\<rparr> \<and>
   fst (protect demo_lib demo_env (snd (logOut demo_env demo_db demo_request 6000))
          (demo_request\<lparr>authorization := Some ''Bearer tok.u1''\<rparr>) 9000) =
     Next (hide_password alice)"
proof -
  have verified: "jwt_verify demo_lib ''tok.u1'' (JWT_SECRET demo_env) 9000 =
      Inr \<lparr>d_id = ''u1'', d_iat = 5\<rparr>"
    by (simp add: demo_lib_def demo_env_def)
  have found: "findById demo_db ''u1'' = Some (hide_password alice)"
    by (simp add: findById_def demo_db_def alice_def)
  have fresh: "\<not> passwordChangedAfter (hide_password alice) 5"
    by (simp add: passwordChangedAfter_def hide_password_def alice_def)
  let ?req = "demo_request\<lparr>authorization := Some ''Bearer tok.u1''\<rparr>"
  note run = logOut_is_stateless
               [of demo_env demo_db demo_request 6000 demo_lib ?req 9000 "''tok.u1''"
                   "\<lparr>d_id = ''u1'', d_iat = 5\<rparr>" "hide_password alice"]
  have presented: "(6000 :: int) \<le> 9000 \<and> authorization ?req = Some (''Bearer '' @ ''tok.u1'') \<and>
      ''tok.u1'' \<noteq> [] \<and> CHR '' '' \<notin> set ''tok.u1'' \<and>
      jwt_verify demo_lib ''tok.u1'' (JWT_SECRET demo_env) 9000 = Inr \<lparr>d_id = ''u1'', d_iat = 5\<rparr> \<and>
      findById demo_db (d_id \<lparr>d_id = ''u1'', d_iat = 5\<rparr>) = Some (hide_password alice) \<and>
      \<not> passwordChangedAfter (hide_password alice) (d_iat \<lparr>d_id = ''u1'', d_iat = 5\<rparr>)"
    using verified found fresh by simp
  have accepted: "fst (protect demo_lib demo_env (snd (logOut demo_env demo_db demo_request 6000))
      ?req 9000) = Next (hide_password alice)"
    using run presented by blast
  have "logOut demo_env demo_db demo_request 6000 =
      (Responded
         \<lparr>statusCode = 200,
          cookies = [(''jwt'', ''loggedout'',
                      \<lparr>expires = 6000 + 10000,
                       secure = (NODE_ENV demo_env \<noteq> Some ''development''),
                       sameSite = (if NODE_ENV demo_env = Some ''development'' then ''Strict''
                                   else ''None''),
                       httpOnly = True, path = ''/''\<rparr>)],
          body = [(''status'', JStr ''success'')]\<rparr>,
       demo_db)"
    using run by blast
  then have answered: "fst (logOut demo_env demo_db demo_request 6000) =
      Responded
        \<lparr>statusCode = 200,
         cookies = [(''jwt'', ''loggedout'',
                     \<lparr>expires = 16000, secure = True, sameSite = ''None'', httpOnly = True,
                      path = ''/''\<rparr>)],
         body = [(''status'', JStr ''success'')]\<rparr>"
    by (simp add: demo_env_def)
  show ?thesis
    using verified found fresh answered accepted by simp
qed

section \<open>Unmatched paths\<close>





end
